theory Spec2Isabelle
  imports Main "HOL-Library.Word"
begin

section \<open>JavaScript strings\<close>

text \<open>
  A JavaScript string is a finite sequence of 16-bit code units. Fixed text of the
  source is written as an Isabelle literal and injected with \<open>js\<close>; user-supplied
  fields range over all code-unit sequences.
\<close>

type_synonym code_unit = "16 word"
type_synonym js_string = "code_unit list"

definition js :: "string \<Rightarrow> js_string" where
  "js s = map (\<lambda>c. of_nat (of_char c)) s"

text \<open>
  \<open>String.prototype.trim\<close> strips ECMAScript WhiteSpace and LineTerminator code
  points from both ends: TAB, LF, VT, FF, CR, SPACE, NBSP, U+1680, U+2000 to U+200A,
  U+2028, U+2029, U+202F, U+205F, U+3000 and U+FEFF. All of them are single code units.
\<close>

definition isWhiteSpace :: "code_unit \<Rightarrow> bool" where
  "isWhiteSpace c \<longleftrightarrow>
     c = 0x9 \<or> c = 0xA \<or> c = 0xB \<or> c = 0xC \<or> c = 0xD \<or> c = 0x20 \<or> c = 0xA0 \<or>
     c = 0x1680 \<or> (0x2000 \<le> c \<and> c \<le> 0x200A) \<or> c = 0x2028 \<or> c = 0x2029 \<or>
     c = 0x202F \<or> c = 0x205F \<or> c = 0x3000 \<or> c = 0xFEFF"

definition trim :: "js_string \<Rightarrow> js_string" where
  "trim s = rev (dropWhile isWhiteSpace (rev (dropWhile isWhiteSpace s)))"

text \<open>
  \<open>s.split(sep)\<close> for a separator of one code unit: the pieces between the
  occurrences of the separator. The empty string splits into one empty piece.
\<close>

fun split :: "code_unit \<Rightarrow> js_string \<Rightarrow> js_string list" where
  "split sep [] = [[]]"
| "split sep (c # cs) =
     (if c = sep then [] # split sep cs
      else (case split sep cs of
              [] \<Rightarrow> [[c]]
            | piece # pieces \<Rightarrow> (c # piece) # pieces))"

text \<open>\<open>Array.prototype.join\<close> on an array of strings.\<close>

fun join :: "js_string \<Rightarrow> js_string list \<Rightarrow> js_string" where
  "join sep [] = []"
| "join sep [x] = x"
| "join sep (x # y # ys) = x @ sep @ join sep (y # ys)"

text \<open>
  \<open>String.prototype.toLowerCase\<close>, on the Basic Latin letters. The source applies it
  to the values of the \<open>VideoStyle\<close> enum only, which are ASCII.
\<close>

definition toLowerCase :: "js_string \<Rightarrow> js_string" where
  "toLowerCase s = map (\<lambda>c. if 0x41 \<le> c \<and> c \<le> 0x5A then c + 0x20 else c) s"

text \<open>Truthiness of a string in a condition: every string but the empty one.\<close>

definition truthy :: "js_string \<Rightarrow> bool" where
  "truthy s \<longleftrightarrow> s \<noteq> []"

section \<open>The data model (types.ts)\<close>

datatype VeoModel = VEO_FAST | VEO

datatype AspectRatio = LANDSCAPE | PORTRAIT

datatype Resolution = P720 | P1080

datatype VideoStyle = MODERN | MINIMALIST | ENERGETIC | INFORMATIONAL

fun VeoModel_value :: "VeoModel \<Rightarrow> js_string" where
  "VeoModel_value VEO_FAST = js ''veo-3.1-fast-generate-preview''"
| "VeoModel_value VEO = js ''veo-3.1-generate-preview''"

fun AspectRatio_value :: "AspectRatio \<Rightarrow> js_string" where
  "AspectRatio_value LANDSCAPE = js ''16:9''"
| "AspectRatio_value PORTRAIT = js ''9:16''"

fun Resolution_value :: "Resolution \<Rightarrow> js_string" where
  "Resolution_value P720 = js ''720p''"
| "Resolution_value P1080 = js ''1080p''"

fun VideoStyle_value :: "VideoStyle \<Rightarrow> js_string" where
  "VideoStyle_value MODERN = js ''Sleek & Modern''"
| "VideoStyle_value MINIMALIST = js ''Minimalist''"
| "VideoStyle_value ENERGETIC = js ''Energetic & Fast-Paced''"
| "VideoStyle_value INFORMATIONAL = js ''Informational''"

text \<open>
  A browser \<open>File\<close>: its name, its MIME type, and what a \<open>FileReader\<close> produces for
  \<open>readAsDataURL\<close> on it (\<open>None\<close> when the reader fires \<open>onerror\<close>).
\<close>

record File =
  file_name :: js_string
  file_type :: js_string
  dataURL :: "js_string option"

record ImageFile =
  file_of :: File
  base64 :: js_string

text \<open>The \<open>Video\<close> descriptor of the service's SDK; every field is optional.\<close>

record Video =
  uri :: "js_string option"
  videoBytes :: "js_string option"
  video_mimeType :: "js_string option"

text \<open>
  The eight fields that the form holds and that \<open>GenerateVideoParams\<close> requires, and
  \<open>GenerateVideoParams\<close> itself with its three deprecated optional fields.
\<close>

record FormValues =
  productName :: js_string
  keyFeatures :: js_string
  targetAudience :: js_string
  videoStyle :: VideoStyle
  productImages :: "ImageFile list"
  model :: VeoModel
  aspectRatio :: AspectRatio
  resolution :: Resolution

record GenerateVideoParams = FormValues +
  prompt :: "js_string option"
  mode :: "js_string option"
  inputVideoObject :: "Video option"

section \<open>Prompt construction (constructPrompt)\<close>

definition constructPrompt :: "'a FormValues_scheme \<Rightarrow> js_string" where
  "constructPrompt params =
     (let prompt = js ''Create a '' @ toLowerCase (VideoStyle_value (videoStyle params))
            @ js '', 15-second e-commerce product video for the '' @ [0x27]
            @ productName params @ js '''.\<newline>\<newline>'';
          prompt =
            (if truthy (targetAudience params)
             then prompt @ js ''The video should be dynamic and engaging, targeting ''
                    @ targetAudience params @ js ''.\<newline>\<newline>''
             else prompt);
          prompt =
            (if truthy (keyFeatures params)
             then prompt @ js ''Showcase the following key features:\<newline>''
                    @ join (js ''\<newline>'')
                        (filter truthy (map trim (split 0xA (keyFeatures params))))
                    @ js ''\<newline>\<newline>''
             else prompt);
          prompt = prompt @ js ''Use smooth transitions, clean graphics, and upbeat, modern background music. The video should feel professional and high-quality.\<newline>\<newline>'';
          prompt = prompt @ js ''Use the provided images as strong visual references for the product's appearance and functionality.''
      in prompt)"

text \<open>The blocks of the prompt, named as the specification names them.\<close>

definition openingSentence :: "VideoStyle \<Rightarrow> js_string \<Rightarrow> js_string" where
  "openingSentence style name =
     js ''Create a '' @ toLowerCase (VideoStyle_value style)
       @ js '', 15-second e-commerce product video for the '' @ [0x27] @ name @ js '''.''"

definition blankLine :: js_string where
  "blankLine = js ''\<newline>\<newline>''"

definition audienceSentence :: "js_string \<Rightarrow> js_string" where
  "audienceSentence a = js ''The video should be dynamic and engaging, targeting '' @ a @ js ''.''"

definition featureLines :: "js_string \<Rightarrow> js_string list" where
  "featureLines k = filter (\<lambda>line. line \<noteq> []) (map trim (split 0xA k))"

definition featuresLeadIn :: js_string where
  "featuresLeadIn = js ''Showcase the following key features:''"

definition featuresBlock :: "js_string \<Rightarrow> js_string" where
  "featuresBlock k =
     featuresLeadIn @ js ''\<newline>'' @ join (js ''\<newline>'') (featureLines k) @ blankLine"

definition closingGuidance :: js_string where
  "closingGuidance =
     js ''Use smooth transitions, clean graphics, and upbeat, modern background music. The video should feel professional and high-quality.''
       @ blankLine
       @ js ''Use the provided images as strong visual references for the product's appearance and functionality.''"

section \<open>The submission pipeline (generateVideo)\<close>

text \<open>
  What the code throws or what a rejected promise carries: an \<open>Error\<close> with its
  message, or the event that a failing \<open>FileReader\<close> hands to \<open>onerror\<close>.
\<close>

datatype js_error = Error js_string | ReaderErrorEvent

text \<open>The request that is submitted to the service.\<close>

datatype VideoGenerationReferenceType = ASSET | STYLE

record Image_ =
  imageBytes :: js_string
  mimeType :: js_string

record VideoGenerationReferenceImage =
  image :: Image_
  referenceType :: VideoGenerationReferenceType

record GenerateVideosConfig =
  numberOfVideos :: nat
  config_resolution :: Resolution
  config_aspectRatio :: AspectRatio
  referenceImages :: "VideoGenerationReferenceImage list"

record GenerateVideosParameters =
  request_model :: VeoModel
  request_prompt :: js_string
  config :: GenerateVideosConfig

text \<open>The operation handle of the service; every field is optional, as in the SDK.\<close>

record GeneratedVideo =
  video :: "Video option"

record GenerateVideosResponse =
  generatedVideos :: "GeneratedVideo list option"

record GenerateVideosOperation =
  operation_name :: "js_string option"
  operation_done :: "bool option"
  response :: "GenerateVideosResponse option"

text \<open>
  A transport response: the status line, and what \<open>res.blob()\<close> settles to.
  \<open>ok\<close> is the Fetch standard's: the status is in the range 200 to 299.
\<close>

type_synonym Blob = "8 word list"

record FetchResponse =
  status :: nat
  statusText :: js_string
  blob_body :: "js_error + Blob"

definition ok :: "FetchResponse \<Rightarrow> bool" where
  "ok res \<longleftrightarrow> 200 \<le> status res \<and> status res \<le> 299"

text \<open>
  The world outside the function: the credential of the process environment, the two
  remote calls of the service, the transport, and the two platform functions
  \<open>decodeURIComponent\<close> and \<open>URL.createObjectURL\<close>. A call that talks to the outside
  takes the state \<open>'w\<close> of the world and returns the new one; a rejected promise is
  \<open>Inl\<close>. Diagnostic \<open>console\<close> output is not modelled.
\<close>

record 'w Environment =
  API_KEY :: "js_string option"
  generateVideos :: "GenerateVideosParameters \<Rightarrow> 'w \<Rightarrow> (js_error + GenerateVideosOperation) \<times> 'w"
  getVideosOperation :: "GenerateVideosOperation \<Rightarrow> 'w \<Rightarrow> (js_error + GenerateVideosOperation) \<times> 'w"
  decodeURIComponent :: "js_string \<Rightarrow> js_error + js_string"
  fetch :: "js_string \<Rightarrow> 'w \<Rightarrow> (js_error + FetchResponse) \<times> 'w"
  createObjectURL :: "Blob \<Rightarrow> 'w \<Rightarrow> js_string \<times> 'w"

text \<open>What a run does to the outside, in order.\<close>

datatype effect =
    Submitted GenerateVideosParameters
  | Waited nat
  | Polled GenerateVideosOperation
  | Fetched js_string
  | ObjectURLCreated Blob

record VideoResult =
  objectUrl :: js_string
  blob :: Blob
  result_uri :: js_string
  result_video :: Video

text \<open>A value inside a template literal: \<open>undefined\<close> prints as its name.\<close>

definition templateValue :: "js_string option \<Rightarrow> js_string" where
  "templateValue v = (case v of None \<Rightarrow> js ''undefined'' | Some s \<Rightarrow> s)"

text \<open>A non-negative integer inside a template literal: its decimal digits.\<close>

function decimal :: "nat \<Rightarrow> js_string" where
  "decimal n = (if n < 10 then [0x30 + of_nat n] else decimal (n div 10) @ [0x30 + of_nat (n mod 10)])"
  by pat_completeness auto
termination
  by (relation "measure id") auto

declare decimal.simps [simp del]

text \<open>
  The poll loop: \<open>while (!operation.done)\<close> waits ten seconds and asks the service
  again, rebinding \<open>operation\<close>. Nothing bounds it, so it is a partial function:
  \<open>None\<close> is the run that never leaves the loop.
\<close>

partial_function (option) pollLoop ::
  "'w Environment \<Rightarrow> GenerateVideosOperation \<Rightarrow> 'w \<Rightarrow> effect list
     \<Rightarrow> ((js_error + GenerateVideosOperation) \<times> 'w \<times> effect list) option" where
  "pollLoop env operation w trace =
     (if operation_done operation = Some True then Some (Inr operation, w, trace)
      else (case getVideosOperation env operation w of
              (Inl err, w') \<Rightarrow> Some (Inl err, w', trace @ [Waited 10000, Polled operation])
            | (Inr refreshed, w') \<Rightarrow>
                pollLoop env refreshed w' (trace @ [Waited 10000, Polled operation])))"

text \<open>A piece of trace that holds ten-second waits and status queries only.\<close>

definition onlyPolls :: "effect list \<Rightarrow> bool" where
  "onlyPolls added \<longleftrightarrow> list_all (\<lambda>e. case e of Waited n \<Rightarrow> n = 10000 | Polled x \<Rightarrow> True | _ \<Rightarrow> False) added"

text \<open>The part of \<open>generateVideo\<close> after the loop: validation and retrieval.\<close>

definition retrieveVideo ::
  "'w Environment \<Rightarrow> GenerateVideosOperation \<Rightarrow> 'w \<Rightarrow> effect list
     \<Rightarrow> (js_error + VideoResult) \<times> 'w \<times> effect list" where
  "retrieveVideo env operation w trace =
     (case response operation of
        None \<Rightarrow> (Inl (Error (js ''No videos generated.'')), w, trace)
      | Some resp \<Rightarrow>
         (case generatedVideos resp of
            None \<Rightarrow> (Inl (Error (js ''No videos were generated.'')), w, trace)
          | Some [] \<Rightarrow> (Inl (Error (js ''No videos were generated.'')), w, trace)
          | Some (firstVideo # _) \<Rightarrow>
             (case video firstVideo of
                None \<Rightarrow> (Inl (Error (js ''Generated video is missing a URI.'')), w, trace)
              | Some videoObject \<Rightarrow>
                 (case uri videoObject of
                    None \<Rightarrow> (Inl (Error (js ''Generated video is missing a URI.'')), w, trace)
                  | Some u \<Rightarrow>
                     if \<not> truthy u
                     then (Inl (Error (js ''Generated video is missing a URI.'')), w, trace)
                     else
                       (case decodeURIComponent env u of
                          Inl err \<Rightarrow> (Inl err, w, trace)
                        | Inr url \<Rightarrow>
                           (let request = url @ js ''&key='' @ templateValue (API_KEY env) in
                            case fetch env request w of
                              (Inl err, w') \<Rightarrow> (Inl err, w', trace @ [Fetched request])
                            | (Inr res, w') \<Rightarrow>
                                if \<not> ok res
                                then (Inl (Error (js ''Failed to fetch video: ''
                                        @ decimal (status res) @ js '' '' @ statusText res)),
                                      w', trace @ [Fetched request])
                                else
                                  (case blob_body res of
                                     Inl err \<Rightarrow> (Inl err, w', trace @ [Fetched request])
                                   | Inr videoBlob \<Rightarrow>
                                      (case createObjectURL env videoBlob w' of
                                         (url', w'') \<Rightarrow>
                                           (Inr \<lparr>objectUrl = url', blob = videoBlob,
                                                 result_uri = url, result_video = videoObject\<rparr>,
                                            w'',
                                            trace @ [Fetched request, ObjectURLCreated videoBlob])))))))))"

text \<open>
  The request of \<open>generateVideo\<close>: the model, the constructed prompt, and a
  configuration asking for one video at the requested resolution and aspect ratio, with
  one reference image of type \<open>ASSET\<close> per product image, in the order of the list.
  The guard \<open>if (params.productImages)\<close> holds for every array, the empty one included.
\<close>

definition generateVideoPayload :: "'a FormValues_scheme \<Rightarrow> GenerateVideosParameters" where
  "generateVideoPayload params =
     (let finalPrompt = constructPrompt params;
          referenceImagesPayload =
            map (\<lambda>img. \<lparr>image = \<lparr>imageBytes = base64 img, mimeType = file_type (file_of img)\<rparr>,
                         referenceType = ASSET\<rparr>)
              (productImages params)
      in \<lparr>request_model = model params,
          request_prompt = finalPrompt,
          config = \<lparr>numberOfVideos = 1,
                    config_resolution = resolution params,
                    config_aspectRatio = aspectRatio params,
                    referenceImages = referenceImagesPayload\<rparr>\<rparr>)"

text \<open>
  \<open>generateVideo\<close>: the one submit call, the poll loop, then validation and
  retrieval. The result is \<open>None\<close> when the promise never settles, \<open>Inl\<close> when it
  is rejected and \<open>Inr\<close> when it is fulfilled.
\<close>

definition generateVideo ::
  "'w Environment \<Rightarrow> 'a FormValues_scheme \<Rightarrow> 'w
     \<Rightarrow> ((js_error + VideoResult) \<times> 'w \<times> effect list) option" where
  "generateVideo env params w =
     (case generateVideos env (generateVideoPayload params) w of
        (Inl err, w1) \<Rightarrow> Some (Inl err, w1, [Submitted (generateVideoPayload params)])
      | (Inr operation, w1) \<Rightarrow>
          (case pollLoop env operation w1 [Submitted (generateVideoPayload params)] of
             None \<Rightarrow> None
           | Some (Inl err, w2, trace) \<Rightarrow> Some (Inl err, w2, trace)
           | Some (Inr finished, w2, trace) \<Rightarrow> Some (retrieveVideo env finished w2 trace)))"

section \<open>The input collector (PromptForm)\<close>

text \<open>
  \<open>fileToBase64\<close>: the reader's data URL is split at the commas and the second piece
  is the payload; a missing or empty second piece rejects, and so does a reader error.
\<close>

definition fileToBase64 :: "File \<Rightarrow> js_error + ImageFile" where
  "fileToBase64 f =
     (case dataURL f of
        None \<Rightarrow> Inl ReaderErrorEvent
      | Some result \<Rightarrow>
         (case split 0x2C result of
            _ # b64 # _ \<Rightarrow>
              if truthy b64 then Inr \<lparr>file_of = f, base64 = b64\<rparr>
              else Inl (Error (js ''Failed to read file as base64.''))
          | _ \<Rightarrow> Inl (Error (js ''Failed to read file as base64.''))))"

text \<open>
  The state of the form: the eight fields, the settings toggle, and the files whose
  read has been started by \<open>handleFileChange\<close> and has not finished yet (the handler
  awaits \<open>fileToImageFile\<close> before it calls \<open>onSelect\<close>).
\<close>

record PromptForm = FormValues +
  isSettingsOpen :: bool
  pendingReads :: "File list"

definition initialState :: "GenerateVideoParams option \<Rightarrow> PromptForm" where
  "initialState initialValues =
     (case initialValues of
        None \<Rightarrow>
          \<lparr>productName = [], keyFeatures = [], targetAudience = [], videoStyle = MODERN,
           productImages = [], model = VEO, aspectRatio = LANDSCAPE, resolution = P720,
           isSettingsOpen = False, pendingReads = []\<rparr>
      | Some v \<Rightarrow>
          \<lparr>productName = productName v, keyFeatures = keyFeatures v,
           targetAudience = targetAudience v, videoStyle = videoStyle v,
           productImages = productImages v, model = model v,
           aspectRatio = aspectRatio v, resolution = resolution v,
           isSettingsOpen = False, pendingReads = []\<rparr>)"

definition isSubmitDisabled :: "'a FormValues_scheme \<Rightarrow> bool" where
  "isSubmitDisabled st \<longleftrightarrow> \<not> truthy (trim (productName st)) \<or> length (productImages st) = 0"

definition tooltipText :: "'a FormValues_scheme \<Rightarrow> js_string" where
  "tooltipText st =
     (if isSubmitDisabled st then
        (if \<not> truthy (trim (productName st)) \<and> length (productImages st) = 0
         then js ''Please enter a product name and upload at least one image.''
         else if \<not> truthy (trim (productName st))
         then js ''Please enter a product name.''
         else js ''Please upload at least one product image.'')
      else [])"

text \<open>The tooltip element is rendered when the button is disabled and the text is not empty.\<close>

definition tooltipShown :: "'a FormValues_scheme \<Rightarrow> bool" where
  "tooltipShown st \<longleftrightarrow> isSubmitDisabled st \<and> truthy (tooltipText st)"

text \<open>\<open>handleSubmit\<close>: the request handed to \<open>onGenerate\<close>.\<close>

definition handleSubmit :: "PromptForm \<Rightarrow> GenerateVideoParams" where
  "handleSubmit st =
     \<lparr>productName = productName st, keyFeatures = keyFeatures st,
      targetAudience = targetAudience st, videoStyle = videoStyle st,
      productImages = productImages st, model = model st,
      aspectRatio = aspectRatio st, resolution = resolution st,
      prompt = None, mode = None, inputVideoObject = None\<rparr>"

text \<open>\<open>imgs.filter((_, i) => i !== index)\<close>\<close>

definition removeImage :: "nat \<Rightarrow> 'a list \<Rightarrow> 'a list" where
  "removeImage index imgs = map snd (filter (\<lambda>(i, _). i \<noteq> index) (enumerate 0 imgs))"

text \<open>
  What can happen to the form. The add tile is rendered while the list holds fewer than
  six images, a remove button exists for each image shown, and the submit button is
  disabled by \<open>isSubmitDisabled\<close>. Picking a file on the add tile starts a read;
  the image is appended when that read finishes, by the state update
  \<open>imgs => [...imgs, img]\<close>. A read that fails is logged and dropped.
\<close>

datatype event =
    SetProductName js_string
  | SetKeyFeatures js_string
  | SetTargetAudience js_string
  | SetVideoStyle VideoStyle
  | SetModel VeoModel
  | SetAspectRatio AspectRatio
  | SetResolution Resolution
  | ToggleSettings
  | InitialValuesChanged "GenerateVideoParams option"
  | RemoveImage nat
  | SelectFile File
  | ReadFinished nat
  | Submit

fun step :: "event \<Rightarrow> PromptForm \<Rightarrow> PromptForm option" where
  "step (SetProductName v) st = Some (st\<lparr>productName := v\<rparr>)"
| "step (SetKeyFeatures v) st = Some (st\<lparr>keyFeatures := v\<rparr>)"
| "step (SetTargetAudience v) st = Some (st\<lparr>targetAudience := v\<rparr>)"
| "step (SetVideoStyle v) st = Some (st\<lparr>videoStyle := v\<rparr>)"
| "step (SetModel v) st = Some (st\<lparr>model := v\<rparr>)"
| "step (SetAspectRatio v) st = Some (st\<lparr>aspectRatio := v\<rparr>)"
| "step (SetResolution v) st = Some (st\<lparr>resolution := v\<rparr>)"
| "step ToggleSettings st = Some (st\<lparr>isSettingsOpen := \<not> isSettingsOpen st\<rparr>)"
| "step (InitialValuesChanged None) st = Some st"
| "step (InitialValuesChanged (Some v)) st =
     Some (st\<lparr>productName := productName v, keyFeatures := keyFeatures v,
              targetAudience := targetAudience v, videoStyle := videoStyle v,
              productImages := productImages v, model := model v,
              aspectRatio := aspectRatio v, resolution := resolution v\<rparr>)"
| "step (RemoveImage index) st =
     (if index < length (productImages st)
      then Some (st\<lparr>productImages := removeImage index (productImages st)\<rparr>)
      else None)"
| "step (SelectFile f) st =
     (if length (productImages st) < 6
      then Some (st\<lparr>pendingReads := pendingReads st @ [f]\<rparr>)
      else None)"
| "step (ReadFinished k) st =
     (if k < length (pendingReads st) then
        (let rest = take k (pendingReads st) @ drop (Suc k) (pendingReads st) in
         case fileToBase64 (pendingReads st ! k) of
           Inl err \<Rightarrow> Some (st\<lparr>pendingReads := rest\<rparr>)
         | Inr img \<Rightarrow>
             Some (st\<lparr>productImages := productImages st @ [img], pendingReads := rest\<rparr>))
      else None)"
| "step Submit st = (if isSubmitDisabled st then None else Some st)"

fun run :: "event list \<Rightarrow> PromptForm \<Rightarrow> PromptForm option" where
  "run [] st = Some st"
| "run (e # es) st = (case step e st of None \<Rightarrow> None | Some st' \<Rightarrow> run es st')"

text \<open>
  An event that does not overlap a pending read: a file is picked, or a request is
  seeded, only when no read is pending; and a seeded request holds at most six images.
\<close>

definition withoutOverlap :: "event \<Rightarrow> PromptForm \<Rightarrow> bool" where
  "withoutOverlap e st =
     (case e of
        SelectFile f \<Rightarrow> pendingReads st = []
      | InitialValuesChanged (Some v) \<Rightarrow> pendingReads st = [] \<and> length (productImages v) \<le> 6
      | _ \<Rightarrow> True)"

section \<open>Example inputs\<close>

definition exampleFile :: File where
  "exampleFile =
     \<lparr>file_name = js ''stand.png'', file_type = js ''image/png'',
      dataURL = Some (js ''data:image/png;base64,iVBORw0KGgo='')\<rparr>"

definition exampleImage :: ImageFile where
  "exampleImage = \<lparr>file_of = exampleFile, base64 = js ''iVBORw0KGgo=''\<rparr>"

definition standParams :: GenerateVideoParams where
  "standParams =
     \<lparr>productName = js ''Laptop Stand'',
      keyFeatures = js ''  - Portable \<newline>\<newline> - Sturdy'',
      targetAudience = js ''students'',
      videoStyle = MINIMALIST,
      productImages = [exampleImage],
      model = VEO, aspectRatio = LANDSCAPE, resolution = P720,
      prompt = None, mode = None, inputVideoObject = None\<rparr>"

text \<open>The same request with a key-features field that holds one space only.\<close>

definition blankFeaturesParams :: GenerateVideoParams where
  "blankFeaturesParams = standParams\<lparr>keyFeatures := js '' '', targetAudience := []\<rparr>"

text \<open>The form seeded from the example request, with the name replaced by one space.\<close>

definition blankNameForm :: PromptForm where
  "blankNameForm = (initialState (Some standParams))\<lparr>productName := js '' ''\<rparr>"

text \<open>
  Two further files, and a session at the form: five images are added one after the
  other; then, with five images shown, a file is picked on the add tile and a second
  one is picked before the read of the first has finished; then both reads finish.
\<close>

definition fileA :: File where
  "fileA =
     \<lparr>file_name = js ''a.png'', file_type = js ''image/png'',
      dataURL = Some (js ''data:image/png;base64,QUFB'')\<rparr>"

definition fileB :: File where
  "fileB =
     \<lparr>file_name = js ''b.png'', file_type = js ''image/png'',
      dataURL = Some (js ''data:image/png;base64,QkJC'')\<rparr>"

definition fiveAdds :: "event list" where
  "fiveAdds = concat (replicate 5 [SelectFile exampleFile, ReadFinished 0])"

definition overlappingReads :: "event list" where
  "overlappingReads = [SelectFile fileA, SelectFile fileB, ReadFinished 0, ReadFinished 0]"

text \<open>
  A scripted service for the examples. The state of the world counts the status
  queries made so far. The submit call returns an operation that is not done; the
  first status query returns one that is not done either, every later one the
  finished operation given. The platform's \<open>decodeURIComponent\<close> is the identity on
  the example's URI, which has no escape sequence.
\<close>

definition pendingOperation :: GenerateVideosOperation where
  "pendingOperation =
     \<lparr>operation_name = Some (js ''operations/1''), operation_done = None, response = None\<rparr>"

definition exampleVideo :: Video where
  "exampleVideo =
     \<lparr>uri = Some (js ''https://example.test/v1/files/1:download?alt=media''),
      videoBytes = None, video_mimeType = None\<rparr>"

definition finishedOperation :: GenerateVideosOperation where
  "finishedOperation =
     \<lparr>operation_name = Some (js ''operations/1''), operation_done = Some True,
      response = Some \<lparr>generatedVideos = Some [\<lparr>video = Some exampleVideo\<rparr>]\<rparr>\<rparr>"

definition emptyOperation :: GenerateVideosOperation where
  "emptyOperation =
     \<lparr>operation_name = Some (js ''operations/1''), operation_done = Some True,
      response = Some \<lparr>generatedVideos = Some []\<rparr>\<rparr>"

definition scriptedService :: "GenerateVideosOperation \<Rightarrow> FetchResponse \<Rightarrow> nat Environment" where
  "scriptedService finished res =
     \<lparr>API_KEY = Some (js ''KEY''),
      generateVideos = (\<lambda>payload n. (Inr pendingOperation, n)),
      getVideosOperation = (\<lambda>operation n. (Inr (if n = 0 then pendingOperation else finished), Suc n)),
      decodeURIComponent = (\<lambda>s. Inr s),
      fetch = (\<lambda>url n. (Inr res, n)),
      createObjectURL = (\<lambda>b n. (js ''blob:1'', n))\<rparr>"

definition okResponse :: FetchResponse where
  "okResponse = \<lparr>status = 200, statusText = js ''OK'', blob_body = Inr [0x66, 0x74, 0x79, 0x70]\<rparr>"

definition notFoundResponse :: FetchResponse where
  "notFoundResponse =
     \<lparr>status = 404, statusText = js ''Not Found'', blob_body = Inr []\<rparr>"

section \<open>Properties of the string operations\<close>

lemma js_append: "js (a @ b) = js a @ js b"
  by (simp add: js_def)

lemma all_dropWhile: "(\<forall>x \<in> set (dropWhile P xs). P x) \<longleftrightarrow> (\<forall>x \<in> set xs. P x)"
  by (induction xs) auto

lemma trim_empty_iff: "trim s = [] \<longleftrightarrow> (\<forall>c \<in> set s. isWhiteSpace c)"
  by (simp add: trim_def dropWhile_eq_Nil_conv all_dropWhile)

lemma truthy_fun: "truthy = (\<lambda>s. s \<noteq> [])"
  by (rule ext) (simp add: truthy_def)

lemma split_not_Nil: "split sep s \<noteq> []"
  by (induction s) (auto split: list.splits)

lemma set_split_subset: "piece \<in> set (split sep s) \<Longrightarrow> set piece \<subseteq> set s"
proof (induction s arbitrary: piece)
  case Nil
  then show ?case by simp
next
  case (Cons c cs)
  show ?case
  proof (cases "c = sep")
    case True
    with Cons show ?thesis by auto
  next
    case False
    obtain q qs where q: "split sep cs = q # qs"
      using split_not_Nil [of sep cs] by (cases "split sep cs") auto
    with False Cons.prems have "piece = c # q \<or> piece \<in> set qs" by auto
    then show ?thesis
    proof
      assume "piece = c # q"
      moreover have "set q \<subseteq> set cs" using Cons.IH [of q] q by simp
      ultimately show ?thesis by auto
    next
      assume "piece \<in> set qs"
      then have "set piece \<subseteq> set cs" using Cons.IH [of piece] q by simp
      then show ?thesis by auto
    qed
  qed
qed

lemma featureLines_blank: "trim k = [] \<Longrightarrow> featureLines k = []"
proof -
  assume "trim k = []"
  then have ws: "\<forall>c \<in> set k. isWhiteSpace c" by (simp add: trim_empty_iff)
  have "\<forall>piece \<in> set (split 0xA k). trim piece = []"
  proof
    fix piece assume "piece \<in> set (split 0xA k)"
    then have "set piece \<subseteq> set k" by (rule set_split_subset)
    with ws show "trim piece = []" by (auto simp: trim_empty_iff)
  qed
  then show ?thesis by (auto simp: featureLines_def filter_empty_conv)
qed

lemma js_fold: "js a @ js b = js (a @ b)" "js a @ js b @ c = js (a @ b) @ c"
  by (simp_all add: js_def)

lemma constructPrompt_blocks:
  "constructPrompt p =
     openingSentence (videoStyle p) (productName p) @ blankLine
       @ (if targetAudience p \<noteq> [] then audienceSentence (targetAudience p) @ blankLine else [])
       @ (if keyFeatures p \<noteq> [] then featuresBlock (keyFeatures p) else [])
       @ closingGuidance"
  by (simp add: constructPrompt_def Let_def truthy_fun openingSentence_def audienceSentence_def
      featuresBlock_def featuresLeadIn_def featureLines_def closingGuidance_def blankLine_def
      js_fold)

lemma toLowerCase_VideoStyle:
  "toLowerCase (VideoStyle_value style) =
     (case style of
        MODERN \<Rightarrow> js ''sleek & modern''
      | MINIMALIST \<Rightarrow> js ''minimalist''
      | ENERGETIC \<Rightarrow> js ''energetic & fast-paced''
      | INFORMATIONAL \<Rightarrow> js ''informational'')"
  by (cases style) (simp_all add: toLowerCase_def js_def)

lemma toLowerCase_values:
  "toLowerCase (js ''Sleek & Modern'') = js ''sleek & modern''"
  "toLowerCase (js ''Minimalist'') = js ''minimalist''"
  "toLowerCase (js ''Energetic & Fast-Paced'') = js ''energetic & fast-paced''"
  "toLowerCase (js ''Informational'') = js ''informational''"
  by (simp_all add: toLowerCase_def js_def)

lemma js_apostrophe: "[0x27] = js [CHR 0x27]"
  by (simp add: js_def)

lemma length_js: "length (js s) = length s"
  by (simp add: js_def)

lemma featureLines_stand:
  "featureLines (js ''  - Portable \<newline>\<newline> - Sturdy'') = [js ''- Portable'', js ''- Sturdy'']"
  by (simp add: featureLines_def js_def trim_def isWhiteSpace_def)

lemma trim_space: "trim (js '' '') = []"
  by (simp add: js_def trim_def isWhiteSpace_def)

lemma js_space_not_Nil: "js '' '' \<noteq> []"
  by (simp add: js_def)

section \<open>Claims about the prompt\<close>

lemma constructPrompt_stand:
  "constructPrompt standParams =
     js ''Create a minimalist, 15-second e-commerce product video for the 'Laptop Stand'.\<newline>\<newline>The video should be dynamic and engaging, targeting students.\<newline>\<newline>Showcase the following key features:\<newline>- Portable\<newline>- Sturdy\<newline>\<newline>Use smooth transitions, clean graphics, and upbeat, modern background music. The video should feel professional and high-quality.\<newline>\<newline>Use the provided images as strong visual references for the product's appearance and functionality.''"
proof -
  have nonempty: "js ''students'' \<noteq> []" "js ''  - Portable \<newline>\<newline> - Sturdy'' \<noteq> []"
    by (simp_all add: js_def)
  show ?thesis
    by (simp add: constructPrompt_blocks standParams_def nonempty openingSentence_def
        audienceSentence_def featuresBlock_def featuresLeadIn_def featureLines_stand
        closingGuidance_def blankLine_def toLowerCase_values js_apostrophe js_fold)
qed

lemma constructPrompt_blankFeatures:
  "constructPrompt blankFeaturesParams =
     js ''Create a minimalist, 15-second e-commerce product video for the 'Laptop Stand'.\<newline>\<newline>Showcase the following key features:\<newline>\<newline>\<newline>Use smooth transitions, clean graphics, and upbeat, modern background music. The video should feel professional and high-quality.\<newline>\<newline>Use the provided images as strong visual references for the product's appearance and functionality.''"
proof -
  have lines: "featureLines (js '' '') = []"
    by (rule featureLines_blank) (rule trim_space)
  show ?thesis
    by (simp add: constructPrompt_blocks blankFeaturesParams_def standParams_def
        js_space_not_Nil openingSentence_def featuresBlock_def featuresLeadIn_def lines
        closingGuidance_def blankLine_def toLowerCase_values js_apostrophe js_fold)
qed

text \<open>
  C1, as the specification states it: the key-features block is in the prompt if and
  only if the field is not empty after trimming, so a field of white space only gives
  no block. The code tests the field itself: a field holding one space trims to the
  empty string, and the prompt still carries the lead-in sentence, followed by an
  empty list of lines.
\<close>

theorem features_block_whitespace_counterexample:
  "trim (keyFeatures blankFeaturesParams) = []
   \<and> constructPrompt blankFeaturesParams =
       js ''Create a minimalist, 15-second e-commerce product video for the 'Laptop Stand'.\<newline>\<newline>Showcase the following key features:\<newline>\<newline>\<newline>Use smooth transitions, clean graphics, and upbeat, modern background music. The video should feel professional and high-quality.\<newline>\<newline>Use the provided images as strong visual references for the product's appearance and functionality.''
   \<and> constructPrompt blankFeaturesParams \<noteq>
       openingSentence (videoStyle blankFeaturesParams) (productName blankFeaturesParams) @ blankLine
         @ (if targetAudience blankFeaturesParams \<noteq> []
            then audienceSentence (targetAudience blankFeaturesParams) @ blankLine else [])
         @ (if trim (keyFeatures blankFeaturesParams) \<noteq> []
            then featuresBlock (keyFeatures blankFeaturesParams) else [])
         @ closingGuidance"
proof -
  have t: "trim (keyFeatures blankFeaturesParams) = []"
    by (simp add: blankFeaturesParams_def trim_space)
  have k: "keyFeatures blankFeaturesParams \<noteq> []"
    by (simp add: blankFeaturesParams_def js_space_not_Nil)
  have "featuresBlock (keyFeatures blankFeaturesParams) \<noteq> []"
    by (simp add: featuresBlock_def featuresLeadIn_def js_def)
  with t k have "constructPrompt blankFeaturesParams \<noteq>
       openingSentence (videoStyle blankFeaturesParams) (productName blankFeaturesParams) @ blankLine
         @ (if targetAudience blankFeaturesParams \<noteq> []
            then audienceSentence (targetAudience blankFeaturesParams) @ blankLine else [])
         @ (if trim (keyFeatures blankFeaturesParams) \<noteq> []
            then featuresBlock (keyFeatures blankFeaturesParams) else [])
         @ closingGuidance"
    by (simp add: constructPrompt_blocks)
  with t constructPrompt_blankFeatures show ?thesis by simp
qed

text \<open>
  C1, amended: the prompt holds the key-features block (the lead-in sentence, a
  newline, the lines of the field split at newlines, each trimmed, the empty ones
  dropped, joined by newlines, and a blank line) if and only if the field is a
  non-empty string; the field is not trimmed before the test. A non-empty field of
  white space only gives the block with no feature line: the lead-in sentence followed
  by three newlines.
\<close>

theorem features_block_iff_nonempty:
  "constructPrompt p =
     openingSentence (videoStyle p) (productName p) @ blankLine
       @ (if targetAudience p \<noteq> [] then audienceSentence (targetAudience p) @ blankLine else [])
       @ (if keyFeatures p \<noteq> [] then featuresBlock (keyFeatures p) else [])
       @ closingGuidance
   \<and> featuresBlock (keyFeatures p) =
       featuresLeadIn @ js ''\<newline>''
         @ join (js ''\<newline>'') (filter (\<lambda>line. line \<noteq> []) (map trim (split 0xA (keyFeatures p))))
         @ js ''\<newline>\<newline>''
   \<and> featuresBlock (keyFeatures p) \<noteq> []
   \<and> (trim (keyFeatures p) = [] \<longrightarrow>
        featuresBlock (keyFeatures p) = featuresLeadIn @ js ''\<newline>\<newline>\<newline>'')"
proof -
  have a: "featuresBlock (keyFeatures p) =
       featuresLeadIn @ js ''\<newline>''
         @ join (js ''\<newline>'') (filter (\<lambda>line. line \<noteq> []) (map trim (split 0xA (keyFeatures p))))
         @ js ''\<newline>\<newline>''"
    by (simp add: featuresBlock_def featureLines_def blankLine_def)
  have b: "featuresBlock (keyFeatures p) \<noteq> []"
    by (simp add: featuresBlock_def featuresLeadIn_def js_def)
  have c: "featuresBlock (keyFeatures p) = featuresLeadIn @ js ''\<newline>\<newline>\<newline>''"
    if "trim (keyFeatures p) = []"
    using featureLines_blank [OF that]
    by (simp add: featuresBlock_def blankLine_def js_def)
  from a b c constructPrompt_blocks [of p] show ?thesis by blast
qed

theorem features_block_iff_nonempty_witness:
  "keyFeatures blankFeaturesParams \<noteq> []
   \<and> trim (keyFeatures blankFeaturesParams) = []
   \<and> featuresBlock (keyFeatures blankFeaturesParams) =
       js ''Showcase the following key features:\<newline>\<newline>\<newline>''
   \<and> constructPrompt blankFeaturesParams =
       openingSentence MINIMALIST (js ''Laptop Stand'') @ blankLine
         @ js ''Showcase the following key features:\<newline>\<newline>\<newline>'' @ closingGuidance"
proof -
  have t: "trim (keyFeatures blankFeaturesParams) = []"
    by (simp add: blankFeaturesParams_def trim_space)
  have k: "keyFeatures blankFeaturesParams \<noteq> []"
    by (simp add: blankFeaturesParams_def js_space_not_Nil)
  have fields: "videoStyle blankFeaturesParams = MINIMALIST"
    "productName blankFeaturesParams = js ''Laptop Stand''"
    "targetAudience blankFeaturesParams = []"
    by (simp_all add: blankFeaturesParams_def standParams_def)
  note inst = features_block_iff_nonempty [of blankFeaturesParams]
  from inst t have block: "featuresBlock (keyFeatures blankFeaturesParams) =
      featuresLeadIn @ js ''\<newline>\<newline>\<newline>''"
    by blast
  from inst have "constructPrompt blankFeaturesParams =
      openingSentence (videoStyle blankFeaturesParams) (productName blankFeaturesParams) @ blankLine
       @ (if targetAudience blankFeaturesParams \<noteq> []
          then audienceSentence (targetAudience blankFeaturesParams) @ blankLine else [])
       @ (if keyFeatures blankFeaturesParams \<noteq> []
          then featuresBlock (keyFeatures blankFeaturesParams) else [])
       @ closingGuidance"
    by (rule conjunct1)
  with t k fields block show ?thesis
    by (simp add: featuresLeadIn_def js_fold)
qed

text \<open>
  C3: the prompt begins with the sentence "Create a STYLE, 15-second e-commerce
  product video for the 'NAME'." where STYLE is the value of the style enum in lower
  case and NAME the product name; a blank line follows; then the audience sentence,
  exactly when the target audience is not empty; then the key-features block, when the
  code includes it; then the two closing guidance sentences, which are fixed.
\<close>

theorem constructPrompt_fixed_order:
  "constructPrompt p =
     js ''Create a '' @ toLowerCase (VideoStyle_value (videoStyle p))
       @ js '', 15-second e-commerce product video for the '' @ [0x27] @ productName p @ js '''.''
       @ js ''\<newline>\<newline>''
       @ (if targetAudience p \<noteq> []
          then js ''The video should be dynamic and engaging, targeting '' @ targetAudience p
                 @ js ''.'' @ js ''\<newline>\<newline>''
          else [])
       @ (if keyFeatures p \<noteq> [] then featuresBlock (keyFeatures p) else [])
       @ js ''Use smooth transitions, clean graphics, and upbeat, modern background music. The video should feel professional and high-quality.''
       @ js ''\<newline>\<newline>''
       @ js ''Use the provided images as strong visual references for the product's appearance and functionality.''
   \<and> toLowerCase (VideoStyle_value (videoStyle p)) =
       (case videoStyle p of
          MODERN \<Rightarrow> js ''sleek & modern''
        | MINIMALIST \<Rightarrow> js ''minimalist''
        | ENERGETIC \<Rightarrow> js ''energetic & fast-paced''
        | INFORMATIONAL \<Rightarrow> js ''informational'')"
  using constructPrompt_blocks [of p] toLowerCase_VideoStyle [of "videoStyle p"]
  by (simp add: openingSentence_def audienceSentence_def closingGuidance_def blankLine_def)

theorem constructPrompt_fixed_order_witness:
  "constructPrompt standParams =
     js ''Create a minimalist, 15-second e-commerce product video for the 'Laptop Stand'.\<newline>\<newline>The video should be dynamic and engaging, targeting students.\<newline>\<newline>''
       @ featuresBlock (js ''  - Portable \<newline>\<newline> - Sturdy'')
       @ js ''Use smooth transitions, clean graphics, and upbeat, modern background music. The video should feel professional and high-quality.\<newline>\<newline>Use the provided images as strong visual references for the product's appearance and functionality.''"
proof -
  have nonempty: "js ''students'' \<noteq> []" "js ''  - Portable \<newline>\<newline> - Sturdy'' \<noteq> []"
    by (simp_all add: js_def)
  from constructPrompt_fixed_order [of standParams] nonempty show ?thesis
    by (simp add: standParams_def toLowerCase_values js_apostrophe js_fold)
qed

text \<open>
  C7: for a request with an empty target audience and a non-empty audience string
  \<open>a\<close>, setting the target audience to \<open>a\<close> changes the prompt in one way only: the
  audience sentence (with its blank line) is inserted right after the opening
  sentence; the text before and the text after are unchanged.
\<close>

theorem audience_sentence_inserted:
  assumes "targetAudience p = []" and "a \<noteq> []"
  shows "constructPrompt (p\<lparr>targetAudience := a\<rparr>) =
           take (length (openingSentence (videoStyle p) (productName p) @ blankLine)) (constructPrompt p)
             @ (audienceSentence a @ blankLine)
             @ drop (length (openingSentence (videoStyle p) (productName p) @ blankLine)) (constructPrompt p)
         \<and> take (length (openingSentence (videoStyle p) (productName p) @ blankLine)) (constructPrompt p)
             = openingSentence (videoStyle p) (productName p) @ blankLine
         \<and> audienceSentence a = js ''The video should be dynamic and engaging, targeting '' @ a @ js ''.''"
  using assms by (simp add: constructPrompt_blocks audienceSentence_def)

theorem audience_sentence_inserted_witness:
  "targetAudience blankFeaturesParams = [] \<and> js ''students'' \<noteq> []
   \<and> constructPrompt (blankFeaturesParams\<lparr>targetAudience := js ''students''\<rparr>) =
       js ''Create a minimalist, 15-second e-commerce product video for the 'Laptop Stand'.\<newline>\<newline>''
         @ js ''The video should be dynamic and engaging, targeting students.\<newline>\<newline>''
         @ js ''Showcase the following key features:\<newline>\<newline>\<newline>Use smooth transitions, clean graphics, and upbeat, modern background music. The video should feel professional and high-quality.\<newline>\<newline>Use the provided images as strong visual references for the product's appearance and functionality.''"
proof -
  have e: "targetAudience blankFeaturesParams = []"
    by (simp add: blankFeaturesParams_def)
  have n: "js ''students'' \<noteq> []"
    by (simp add: js_def)
  have o: "openingSentence (videoStyle blankFeaturesParams) (productName blankFeaturesParams) @ blankLine
      = js ''Create a minimalist, 15-second e-commerce product video for the 'Laptop Stand'.\<newline>\<newline>''"
    by (simp add: blankFeaturesParams_def standParams_def openingSentence_def blankLine_def
        toLowerCase_values js_apostrophe js_fold)
  have parts: "constructPrompt blankFeaturesParams =
      js ''Create a minimalist, 15-second e-commerce product video for the 'Laptop Stand'.\<newline>\<newline>''
        @ js ''Showcase the following key features:\<newline>\<newline>\<newline>Use smooth transitions, clean graphics, and upbeat, modern background music. The video should feel professional and high-quality.\<newline>\<newline>Use the provided images as strong visual references for the product's appearance and functionality.''"
    by (simp add: constructPrompt_blankFeatures js_fold)
  have sentence: "audienceSentence (js ''students'') @ blankLine =
      js ''The video should be dynamic and engaging, targeting students.\<newline>\<newline>''"
    by (simp add: audienceSentence_def blankLine_def js_fold)
  from audience_sentence_inserted [OF e n, THEN conjunct1] have
    "constructPrompt (blankFeaturesParams\<lparr>targetAudience := js ''students''\<rparr>) =
       js ''Create a minimalist, 15-second e-commerce product video for the 'Laptop Stand'.\<newline>\<newline>''
         @ js ''The video should be dynamic and engaging, targeting students.\<newline>\<newline>''
         @ js ''Showcase the following key features:\<newline>\<newline>\<newline>Use smooth transitions, clean graphics, and upbeat, modern background music. The video should feel professional and high-quality.\<newline>\<newline>Use the provided images as strong visual references for the product's appearance and functionality.''"
    unfolding o sentence parts by simp
  with e n show ?thesis by blast
qed

text \<open>
  C10: the prompt depends on the style, the product name, the target audience and the
  key features only. Two requests that agree on these four fields get the same
  prompt, whatever their images, model, aspect ratio, resolution and further fields.
\<close>

theorem constructPrompt_depends_on_four_fields:
  assumes "videoStyle p = videoStyle q" and "productName p = productName q"
    and "targetAudience p = targetAudience q" and "keyFeatures p = keyFeatures q"
  shows "constructPrompt p = constructPrompt q"
  using assms by (simp add: constructPrompt_def Let_def)

theorem constructPrompt_depends_on_four_fields_witness:
  "productImages (standParams\<lparr>productImages := [], model := VEO_FAST, aspectRatio := PORTRAIT,
       resolution := P1080, prompt := Some (js ''old'')\<rparr>) \<noteq> productImages standParams
   \<and> constructPrompt (standParams\<lparr>productImages := [], model := VEO_FAST, aspectRatio := PORTRAIT,
       resolution := P1080, prompt := Some (js ''old'')\<rparr>) = constructPrompt standParams"
proof -
  have "constructPrompt (standParams\<lparr>productImages := [], model := VEO_FAST, aspectRatio := PORTRAIT,
       resolution := P1080, prompt := Some (js ''old'')\<rparr>) = constructPrompt standParams"
    by (rule constructPrompt_depends_on_four_fields) simp_all
  then show ?thesis by (simp add: standParams_def)
qed

section \<open>Claims about the input collector\<close>

lemma js_nonempty_literals:
  "js ''Please enter a product name and upload at least one image.'' \<noteq> []"
  "js ''Please enter a product name.'' \<noteq> []"
  "js ''Please upload at least one product image.'' \<noteq> []"
  by (simp_all add: js_def)

text \<open>
  C2, as the specification states it: submission is disabled exactly when the product
  name is empty or the image list is empty, and with a non-empty name and at least one
  image it is enabled with no message. The code tests the trimmed name: with a name of
  one space and one image, the name is not empty and the list is not empty, and yet
  submission is disabled and the name-specific message is shown.
\<close>

theorem submit_blank_name_counterexample:
  "productName blankNameForm \<noteq> []
   \<and> productImages blankNameForm \<noteq> []
   \<and> isSubmitDisabled blankNameForm
   \<and> tooltipShown blankNameForm
   \<and> tooltipText blankNameForm = js ''Please enter a product name.''"
  by (simp add: blankNameForm_def initialState_def standParams_def isSubmitDisabled_def
      tooltipShown_def tooltipText_def truthy_def trim_space js_space_not_Nil
      js_nonempty_literals)

text \<open>
  C2, amended: submission is disabled exactly when the product name is empty after
  trimming white space or the image list is empty. The message is the combined one
  when the trimmed name is empty and the list is empty, the name-specific one when
  only the trimmed name is empty, the image-specific one when only the list is empty;
  otherwise submission is enabled and there is no message. The tooltip is shown
  exactly when submission is disabled.
\<close>

theorem submit_disabled_iff_blank_or_no_image:
  "(isSubmitDisabled st \<longleftrightarrow> trim (productName st) = [] \<or> productImages st = [])
   \<and> tooltipText st =
       (if trim (productName st) = [] \<and> productImages st = []
        then js ''Please enter a product name and upload at least one image.''
        else if trim (productName st) = [] then js ''Please enter a product name.''
        else if productImages st = [] then js ''Please upload at least one product image.''
        else [])
   \<and> (tooltipShown st \<longleftrightarrow> isSubmitDisabled st)"
  by (simp add: isSubmitDisabled_def tooltipText_def tooltipShown_def truthy_def
      js_nonempty_literals)

theorem submit_disabled_iff_blank_or_no_image_witness:
  "isSubmitDisabled (initialState None)
   \<and> tooltipText (initialState None) =
       js ''Please enter a product name and upload at least one image.''
   \<and> tooltipShown (initialState None)"
proof -
  have "trim (productName (initialState None)) = []" "productImages (initialState None) = []"
    by (simp_all add: initialState_def trim_def)
  with submit_disabled_iff_blank_or_no_image [of "initialState None"] show ?thesis
    by simp
qed

lemma filter_enumerate_below:
  "n < m \<Longrightarrow> filter (\<lambda>(i, _). i \<noteq> n) (enumerate m xs) = enumerate m xs"
  by (rule filter_True) (auto simp: in_set_enumerate_eq)

lemma removeImage_offset:
  "map snd (filter (\<lambda>(i, _). i \<noteq> n + k) (enumerate n xs)) = take k xs @ drop (Suc k) xs"
proof (induction xs arbitrary: n k)
  case Nil
  then show ?case by simp
next
  case (Cons x xs)
  show ?case
  proof (cases k)
    case 0
    then show ?thesis
      by (simp add: filter_enumerate_below map_snd_enumerate)
  next
    case (Suc j)
    with Cons.IH [of "Suc n" j] show ?thesis by simp
  qed
qed

lemma removeImage_take_drop: "removeImage i imgs = take i imgs @ drop (Suc i) imgs"
  using removeImage_offset [of 0 i imgs] by (simp add: removeImage_def)

text \<open>
  C9: for an image list and a valid index \<open>i\<close>, removing the image at \<open>i\<close> leaves the
  entries before \<open>i\<close> followed by the entries after \<open>i\<close>: exactly the entry at
  position \<open>i\<close> is gone, and the others keep their order. Nothing else of the form
  changes.
\<close>

theorem remove_image_at_index:
  assumes "i < length (productImages st)"
  shows "step (RemoveImage i) st =
           Some (st\<lparr>productImages := take i (productImages st) @ drop (Suc i) (productImages st)\<rparr>)
         \<and> length (removeImage i (productImages st)) = length (productImages st) - 1
         \<and> productImages st =
             take i (removeImage i (productImages st)) @ [productImages st ! i]
               @ drop i (removeImage i (productImages st))"
proof -
  have "min (length (productImages st)) i = i"
    using assms by simp
  then show ?thesis
    using assms by (simp add: removeImage_take_drop id_take_nth_drop [symmetric])
qed

theorem remove_image_at_index_witness:
  "removeImage 1 [js ''a'', js ''b'', js ''c''] = [js ''a'', js ''c'']
   \<and> map_option productImages
        (step (RemoveImage 0) (initialState (Some standParams))) = Some []"
proof -
  have l: "(0::nat) < length (productImages (initialState (Some standParams)))"
    by (simp add: initialState_def standParams_def)
  have "removeImage 1 [js ''a'', js ''b'', js ''c''] = [js ''a'', js ''c'']"
    by (simp add: removeImage_take_drop)
  with remove_image_at_index [OF l] show ?thesis
    by (simp add: initialState_def standParams_def)
qed

lemma fileToBase64_examples:
  "fileToBase64 exampleFile = Inr exampleImage"
  "fileToBase64 fileA = Inr \<lparr>file_of = fileA, base64 = js ''QUFB''\<rparr>"
  "fileToBase64 fileB = Inr \<lparr>file_of = fileB, base64 = js ''QkJC''\<rparr>"
  by (simp_all add: fileToBase64_def exampleFile_def exampleImage_def fileA_def fileB_def
      js_def truthy_def)

text \<open>
  What holds of the cap on the image list: the add tile is not offered at six images;
  no event but a finished read or a seeded request makes the list longer; and while
  no event overlaps a pending read, the images shown and the reads pending stay
  within six.
\<close>

lemma add_tile_hidden_at_six:
  "6 \<le> length (productImages st) \<Longrightarrow> step (SelectFile f) st = None"
  by simp

lemma step_grows_only_by_read_or_seed:
  assumes "step e st = Some st'"
    and "\<And>k. e \<noteq> ReadFinished k" and "\<And>v. e \<noteq> InitialValuesChanged (Some v)"
  shows "length (productImages st') \<le> length (productImages st)"
proof (cases e)
  case (InitialValuesChanged v)
  with assms show ?thesis by (cases v) auto
next
  case (RemoveImage i)
  with assms show ?thesis
    by (auto simp: removeImage_take_drop split: if_splits)
qed (use assms in \<open>auto split: if_splits\<close>)

lemma cap_kept_without_overlap:
  assumes "length (productImages st) + length (pendingReads st) \<le> 6"
    and "withoutOverlap e st" and "step e st = Some st'"
  shows "length (productImages st') + length (pendingReads st') \<le> 6"
proof (cases e)
  case (InitialValuesChanged v)
  with assms show ?thesis by (cases v) (auto simp: withoutOverlap_def)
next
  case (RemoveImage i)
  with assms show ?thesis
    by (auto simp: removeImage_take_drop split: if_splits)
next
  case (SelectFile f)
  with assms show ?thesis
    by (auto simp: withoutOverlap_def split: if_splits)
next
  case (ReadFinished k)
  with assms show ?thesis
    by (auto simp: Let_def split: if_splits sum.splits)
qed (use assms in \<open>auto split: if_splits\<close>)

text \<open>
  C8: the image list never exceeds six entries. The add tile is hidden at six images,
  but the append that runs when a read finishes does not look at the length. From the
  empty form, five images are added; then two files are picked while five images are
  shown, the second before the read of the first has finished; when both reads have
  finished the list holds seven images.
\<close>

theorem image_cap_exceeded_by_overlapping_reads:
  "map_option (\<lambda>st. length (productImages st)) (run fiveAdds (initialState None)) = Some 5
   \<and> map_option (\<lambda>st. length (productImages st))
        (run (fiveAdds @ overlappingReads) (initialState None)) = Some 7"
  by (simp add: fiveAdds_def overlappingReads_def initialState_def fileToBase64_examples
      numeral_nat Let_def)

theorem image_cap_exceeded_by_overlapping_reads_witness:
  "\<exists>st. run (fiveAdds @ overlappingReads) (initialState None) = Some st
      \<and> 6 < length (productImages st)"
  using image_cap_exceeded_by_overlapping_reads by auto

section \<open>Claims about the submission pipeline\<close>

lemma pollLoop_done:
  "operation_done operation = Some True \<Longrightarrow>
     pollLoop env operation w trace = Some (Inr operation, w, trace)"
  by (subst pollLoop.simps) simp

lemma pollLoop_again:
  "operation_done operation \<noteq> Some True \<Longrightarrow>
   getVideosOperation env operation w = (Inr refreshed, w') \<Longrightarrow>
     pollLoop env operation w trace =
       pollLoop env refreshed w' (trace @ [Waited 10000, Polled operation])"
  by (subst pollLoop.simps) simp

text \<open>The loop adds waits and status queries to the trace and nothing else.\<close>

lemma onlyPolls_simps:
  "onlyPolls []" "onlyPolls (Waited 10000 # Polled x # added) = onlyPolls added"
  by (simp_all add: onlyPolls_def)

lemma onlyPolls_no_fetch: "onlyPolls added \<Longrightarrow> Fetched url \<notin> set added"
  by (induction added) (auto simp: onlyPolls_def split: effect.splits)

lemma pollLoop_trace:
  assumes "pollLoop env operation w trace = Some y"
  shows "\<exists>added. snd (snd y) = trace @ added \<and> onlyPolls added"
proof (rule pollLoop.raw_induct
    [where P = "\<lambda>env operation w trace y. \<exists>added. snd (snd y) = trace @ added \<and> onlyPolls added",
     OF _ assms])
  fix loop :: "'a Environment \<Rightarrow> GenerateVideosOperation \<Rightarrow> 'a \<Rightarrow> effect list
      \<Rightarrow> ((js_error + GenerateVideosOperation) \<times> 'a \<times> effect list) option"
  fix env operation w trace y
  assume IH: "\<And>env operation w trace y. loop env operation w trace = Some y \<Longrightarrow>
      \<exists>added. snd (snd y) = trace @ added \<and> onlyPolls added"
  assume body:
    "(if operation_done operation = Some True then Some (Inr operation, w, trace)
      else (case getVideosOperation env operation w of
              (Inl err, w') \<Rightarrow> Some (Inl err, w', trace @ [Waited 10000, Polled operation])
            | (Inr refreshed, w') \<Rightarrow>
                loop env refreshed w' (trace @ [Waited 10000, Polled operation]))) = Some y"
  show "\<exists>added. snd (snd y) = trace @ added \<and> onlyPolls added"
  proof (cases "operation_done operation = Some True")
    case True
    with body have "snd (snd y) = trace @ []" by auto
    then show ?thesis using onlyPolls_simps(1) by blast
  next
    case False
    obtain r w' where q: "getVideosOperation env operation w = (r, w')"
      by (cases "getVideosOperation env operation w")
    show ?thesis
    proof (cases r)
      case (Inl err)
      with False q body have "snd (snd y) = trace @ [Waited 10000, Polled operation]"
        by auto
      moreover have "onlyPolls [Waited 10000, Polled operation]"
        by (simp add: onlyPolls_simps)
      ultimately show ?thesis by blast
    next
      case (Inr refreshed)
      with False q body
      have "loop env refreshed w' (trace @ [Waited 10000, Polled operation]) = Some y"
        by simp
      from IH [OF this] obtain added where
        "snd (snd y) = (trace @ [Waited 10000, Polled operation]) @ added" "onlyPolls added"
        by blast
      then have "snd (snd y) = trace @ (Waited 10000 # Polled operation # added)
          \<and> onlyPolls (Waited 10000 # Polled operation # added)"
        by (simp add: onlyPolls_simps)
      then show ?thesis by blast
    qed
  qed
qed

lemma pollLoop_no_fetch:
  assumes "pollLoop env operation w [Submitted payload] = Some (r, w', trace)"
  shows "Fetched url \<notin> set trace"
proof -
  from pollLoop_trace [OF assms] obtain added where
    "trace = [Submitted payload] @ added" "onlyPolls added"
    by auto
  then show ?thesis using onlyPolls_no_fetch [of added url] by auto
qed

text \<open>
  C4: the submit call returns an operation that is not done, the first status query
  returns one that is not done, and the second returns one that is done and carries
  one valid video descriptor: its URI is present and not empty, it decodes, and the
  transport answers the request for it with a success status and a body. Then the
  loop is left after exactly two status queries, each after a wait of 10000
  milliseconds and each on the handle bound by the step before; and the promise is
  fulfilled with the object URL, the body, the decoded URI and the descriptor itself.
\<close>

theorem generateVideo_polls_twice:
  assumes "generateVideos env (generateVideoPayload params) w = (Inr started, wa)"
    and "operation_done started \<noteq> Some True"
    and "getVideosOperation env started wa = (Inr running, wb)"
    and "operation_done running \<noteq> Some True"
    and "getVideosOperation env running wb = (Inr finished, wc)"
    and "operation_done finished = Some True"
    and "response finished = Some resp"
    and "generatedVideos resp = Some [descriptor]"
    and "video descriptor = Some v"
    and "uri v = Some u" and "u \<noteq> []"
    and "decodeURIComponent env u = Inr url"
    and "fetch env (url @ js ''&key='' @ templateValue (API_KEY env)) wc = (Inr res, wd)"
    and "ok res"
    and "blob_body res = Inr body"
    and "createObjectURL env body wd = (local, we)"
  shows "pollLoop env started wa [Submitted (generateVideoPayload params)] =
           Some (Inr finished, wc,
                 [Submitted (generateVideoPayload params),
                  Waited 10000, Polled started, Waited 10000, Polled running])
         \<and> generateVideo env params w =
             Some (Inr \<lparr>objectUrl = local, blob = body, result_uri = url, result_video = v\<rparr>,
                   we,
                   [Submitted (generateVideoPayload params),
                    Waited 10000, Polled started, Waited 10000, Polled running,
                    Fetched (url @ js ''&key='' @ templateValue (API_KEY env)),
                    ObjectURLCreated body])"
proof -
  have loop: "pollLoop env started wa [Submitted (generateVideoPayload params)] =
      Some (Inr finished, wc,
            [Submitted (generateVideoPayload params),
             Waited 10000, Polled started, Waited 10000, Polled running])"
    using assms(2-6) by (simp add: pollLoop_again pollLoop_done)
  have "retrieveVideo env finished wc
          [Submitted (generateVideoPayload params),
           Waited 10000, Polled started, Waited 10000, Polled running] =
        (Inr \<lparr>objectUrl = local, blob = body, result_uri = url, result_video = v\<rparr>,
         we,
         [Submitted (generateVideoPayload params),
          Waited 10000, Polled started, Waited 10000, Polled running,
          Fetched (url @ js ''&key='' @ templateValue (API_KEY env)),
          ObjectURLCreated body])"
    using assms(7-16) by (simp add: retrieveVideo_def truthy_def Let_def)
  with loop assms(1) show ?thesis
    by (simp add: generateVideo_def)
qed

theorem generateVideo_polls_twice_witness:
  "generateVideo (scriptedService finishedOperation okResponse) standParams 0 =
     Some (Inr \<lparr>objectUrl = js ''blob:1'', blob = [0x66, 0x74, 0x79, 0x70],
                result_uri = js ''https://example.test/v1/files/1:download?alt=media'',
                result_video = exampleVideo\<rparr>,
           2,
           [Submitted (generateVideoPayload standParams),
            Waited 10000, Polled pendingOperation, Waited 10000, Polled pendingOperation,
            Fetched (js ''https://example.test/v1/files/1:download?alt=media&key=KEY''),
            ObjectURLCreated [0x66, 0x74, 0x79, 0x70]])"
proof -
  have u: "js ''https://example.test/v1/files/1:download?alt=media'' \<noteq> []"
    by (simp add: js_def)
  have r: "js ''https://example.test/v1/files/1:download?alt=media'' @ js ''&key=''
        @ templateValue (API_KEY (scriptedService finishedOperation okResponse))
      = js ''https://example.test/v1/files/1:download?alt=media&key=KEY''"
    by (simp add: scriptedService_def templateValue_def js_fold)
  have "generateVideo (scriptedService finishedOperation okResponse) standParams 0 =
     Some (Inr \<lparr>objectUrl = js ''blob:1'', blob = [0x66, 0x74, 0x79, 0x70],
                result_uri = js ''https://example.test/v1/files/1:download?alt=media'',
                result_video = exampleVideo\<rparr>,
           Suc (Suc 0),
           [Submitted (generateVideoPayload standParams),
            Waited 10000, Polled pendingOperation, Waited 10000, Polled pendingOperation,
            Fetched (js ''https://example.test/v1/files/1:download?alt=media'' @ js ''&key=''
              @ templateValue (API_KEY (scriptedService finishedOperation okResponse))),
            ObjectURLCreated [0x66, 0x74, 0x79, 0x70]])"
    by (rule generateVideo_polls_twice [where started = pendingOperation
          and running = pendingOperation and finished = finishedOperation
          and wa = 0 and wb = "Suc 0" and wc = "Suc (Suc 0)" and wd = "Suc (Suc 0)"
          and u = "js ''https://example.test/v1/files/1:download?alt=media''"
          and res = okResponse
          and resp = "\<lparr>generatedVideos = Some [\<lparr>video = Some exampleVideo\<rparr>]\<rparr>"
          and descriptor = "\<lparr>video = Some exampleVideo\<rparr>", THEN conjunct2])
      (simp_all add: scriptedService_def pendingOperation_def finishedOperation_def
        exampleVideo_def okResponse_def ok_def u)
  then show ?thesis
    unfolding r by (simp add: numeral_2_eq_2)
qed

text \<open>
  C5: when the loop is left with an operation that carries a response whose list of
  video descriptors is absent or empty, the promise is rejected with the error "No
  videos were generated." and the run has fetched nothing: the world and the trace
  are those at the end of the loop, and the trace holds no fetch.
\<close>

theorem generateVideo_no_videos:
  assumes "generateVideos env (generateVideoPayload params) w = (Inr started, wa)"
    and "pollLoop env started wa [Submitted (generateVideoPayload params)] = Some (Inr finished, wb, trace)"
    and "response finished = Some resp"
    and "generatedVideos resp = None \<or> generatedVideos resp = Some []"
  shows "generateVideo env params w =
           Some (Inl (Error (js ''No videos were generated.'')), wb, trace)
         \<and> (\<forall>url. Fetched url \<notin> set trace)"
proof -
  have "retrieveVideo env finished wb trace =
      (Inl (Error (js ''No videos were generated.'')), wb, trace)"
    using assms(3,4) by (auto simp: retrieveVideo_def)
  with assms(1,2) have "generateVideo env params w =
      Some (Inl (Error (js ''No videos were generated.'')), wb, trace)"
    by (simp add: generateVideo_def)
  moreover have "\<forall>url. Fetched url \<notin> set trace"
    using pollLoop_no_fetch [OF assms(2)] by blast
  ultimately show ?thesis by blast
qed

theorem generateVideo_no_videos_witness:
  "generateVideo (scriptedService emptyOperation okResponse) standParams 0 =
     Some (Inl (Error (js ''No videos were generated.'')), 2,
           [Submitted (generateVideoPayload standParams),
            Waited 10000, Polled pendingOperation, Waited 10000, Polled pendingOperation])"
proof -
  have loop: "pollLoop (scriptedService emptyOperation okResponse) pendingOperation 0
        [Submitted (generateVideoPayload standParams)] =
      Some (Inr emptyOperation, Suc (Suc 0),
            [Submitted (generateVideoPayload standParams),
             Waited 10000, Polled pendingOperation, Waited 10000, Polled pendingOperation])"
    by (simp add: pollLoop_again [where refreshed = pendingOperation and w' = "Suc 0"]
        pollLoop_again [where refreshed = emptyOperation and w' = "Suc (Suc 0)"]
        pollLoop_done scriptedService_def pendingOperation_def emptyOperation_def)
  have "generateVideo (scriptedService emptyOperation okResponse) standParams 0 =
     Some (Inl (Error (js ''No videos were generated.'')), Suc (Suc 0),
           [Submitted (generateVideoPayload standParams),
            Waited 10000, Polled pendingOperation, Waited 10000, Polled pendingOperation])"
    by (rule generateVideo_no_videos [where started = pendingOperation and wa = 0
          and finished = emptyOperation and resp = "\<lparr>generatedVideos = Some []\<rparr>",
          THEN conjunct1])
      (simp_all add: loop, simp_all add: scriptedService_def emptyOperation_def)
  then show ?thesis by (simp add: numeral_2_eq_2)
qed

text \<open>
  C6: submit and poll succeed, the first descriptor carries a URI that is not empty
  and decodes, and the transport answers the request with a status outside 200 to
  299. Then the promise is rejected with the error "Failed to fetch video: ", the
  status code in decimal, a space, and the status text.
\<close>

theorem generateVideo_fetch_failure:
  assumes "generateVideos env (generateVideoPayload params) w = (Inr started, wa)"
    and "pollLoop env started wa [Submitted (generateVideoPayload params)] = Some (Inr finished, wb, trace)"
    and "response finished = Some resp"
    and "generatedVideos resp = Some (firstVideo # others)"
    and "video firstVideo = Some v"
    and "uri v = Some u" and "u \<noteq> []"
    and "decodeURIComponent env u = Inr url"
    and "fetch env (url @ js ''&key='' @ templateValue (API_KEY env)) wb = (Inr res, wc)"
    and "\<not> ok res"
  shows "generateVideo env params w =
           Some (Inl (Error (js ''Failed to fetch video: '' @ decimal (status res) @ js '' ''
                        @ statusText res)),
                 wc,
                 trace @ [Fetched (url @ js ''&key='' @ templateValue (API_KEY env))])"
proof -
  have "retrieveVideo env finished wb trace =
      (Inl (Error (js ''Failed to fetch video: '' @ decimal (status res) @ js '' ''
              @ statusText res)),
       wc, trace @ [Fetched (url @ js ''&key='' @ templateValue (API_KEY env))])"
    using assms(3-10) by (simp add: retrieveVideo_def truthy_def Let_def)
  with assms(1,2) show ?thesis
    by (simp add: generateVideo_def)
qed

lemma decimal_404: "decimal 404 = js ''404''"
  by (simp add: decimal.simps js_def)

theorem generateVideo_fetch_failure_witness:
  "\<not> ok notFoundResponse
   \<and> generateVideo (scriptedService finishedOperation notFoundResponse) standParams 0 =
       Some (Inl (Error (js ''Failed to fetch video: 404 Not Found'')), 2,
             [Submitted (generateVideoPayload standParams),
              Waited 10000, Polled pendingOperation, Waited 10000, Polled pendingOperation,
              Fetched (js ''https://example.test/v1/files/1:download?alt=media&key=KEY'')])"
proof -
  have u: "js ''https://example.test/v1/files/1:download?alt=media'' \<noteq> []"
    by (simp add: js_def)
  have r: "js ''https://example.test/v1/files/1:download?alt=media'' @ js ''&key=''
        @ templateValue (API_KEY (scriptedService finishedOperation notFoundResponse))
      = js ''https://example.test/v1/files/1:download?alt=media&key=KEY''"
    by (simp add: scriptedService_def templateValue_def js_fold)
  have m: "js ''Failed to fetch video: '' @ decimal (status notFoundResponse) @ js '' ''
        @ statusText notFoundResponse = js ''Failed to fetch video: 404 Not Found''"
    by (simp add: notFoundResponse_def decimal_404 js_fold)
  have n: "\<not> ok notFoundResponse"
    by (simp add: ok_def notFoundResponse_def)
  have loop: "pollLoop (scriptedService finishedOperation notFoundResponse) pendingOperation 0
        [Submitted (generateVideoPayload standParams)] =
      Some (Inr finishedOperation, Suc (Suc 0),
            [Submitted (generateVideoPayload standParams),
             Waited 10000, Polled pendingOperation, Waited 10000, Polled pendingOperation])"
    by (simp add: pollLoop_again [where refreshed = pendingOperation and w' = "Suc 0"]
        pollLoop_again [where refreshed = finishedOperation and w' = "Suc (Suc 0)"]
        pollLoop_done scriptedService_def pendingOperation_def finishedOperation_def)
  have "generateVideo (scriptedService finishedOperation notFoundResponse) standParams 0 =
       Some (Inl (Error (js ''Failed to fetch video: '' @ decimal (status notFoundResponse)
                    @ js '' '' @ statusText notFoundResponse)),
             Suc (Suc 0),
             [Submitted (generateVideoPayload standParams),
              Waited 10000, Polled pendingOperation, Waited 10000, Polled pendingOperation]
             @ [Fetched (js ''https://example.test/v1/files/1:download?alt=media'' @ js ''&key=''
              @ templateValue (API_KEY (scriptedService finishedOperation notFoundResponse)))])"
    by (rule generateVideo_fetch_failure [where started = pendingOperation and wa = 0
          and finished = finishedOperation
          and resp = "\<lparr>generatedVideos = Some [\<lparr>video = Some exampleVideo\<rparr>]\<rparr>"
          and firstVideo = "\<lparr>video = Some exampleVideo\<rparr>" and others = "[]"
          and v = exampleVideo
          and u = "js ''https://example.test/v1/files/1:download?alt=media''"])
      (simp_all add: loop n u, simp_all add: scriptedService_def finishedOperation_def exampleVideo_def)
  then show ?thesis
    unfolding r m using n by (simp add: numeral_2_eq_2)
qed

end
